theory Spec2Isabelle
  imports Main "HOL-Library.Word"
begin

section \<open>Platform types and constants\<close>

text \<open>
  The program is a Linux/X11 C program. \<open>Window\<close> is Xlib's \<open>XID\<close>, an
  \<open>unsigned long\<close> (64 bits on LP64 Linux); a D-Bus cookie is a \<open>dbus_uint32_t\<close>;
  a pid and an errno are C \<open>int\<close>s, kept as HOL integers (no arithmetic is done on them).
  The signal and errno numbers are those of Linux.
\<close>

type_synonym Window = "64 word"
type_synonym dbus_uint32_t = "32 word"

definition SIGHUP :: "32 word" where "SIGHUP = 1"
definition SIGINT :: "32 word" where "SIGINT = 2"
definition SIGTERM :: "32 word" where "SIGTERM = 15"


definition EPERM :: int where "EPERM = 1"
definition ENOENT :: int where "ENOENT = 2"
definition ESRCH :: int where "ESRCH = 3"
definition EACCES :: int where "EACCES = 13"

definition EXIT_SUCCESS :: int where "EXIT_SUCCESS = 0"
definition EXIT_FAILURE :: int where "EXIT_FAILURE = 1"

definition NUL :: char where "NUL = CHR 0x00"

section \<open>The C library functions the program calls\<close>

text \<open>
  \<open>isspace\<close>, \<open>isdigit\<close>, \<open>strtoul\<close> with base 0, \<open>atoi\<close> and the \<open>%#lx\<close>
  conversion of \<open>printf\<close> belong to the C library, not to the repository; they are
  written here as ISO C specifies them for the "C" locale. A C string is the list of its
  bytes without the terminating NUL.
\<close>

definition isspace :: "char \<Rightarrow> bool" where
  "isspace c = (let n = (of_char c :: nat) in n = 32 \<or> (9 \<le> n \<and> n \<le> 13))"

definition isdigit :: "char \<Rightarrow> bool" where
  "isdigit c = (let n = (of_char c :: nat) in 48 \<le> n \<and> n \<le> 57)"

text \<open>The value of a digit in any base up to 36; 255 for a byte that is no digit.\<close>

definition digit_val :: "char \<Rightarrow> nat" where
  "digit_val c =
     (let n = (of_char c :: nat) in
      if 48 \<le> n \<and> n \<le> 57 then n - 48
      else if 97 \<le> n \<and> n \<le> 122 then n - 87
      else if 65 \<le> n \<and> n \<le> 90 then n - 55
      else 255)"

definition in_base :: "nat \<Rightarrow> char \<Rightarrow> bool" where
  "in_base b c = (digit_val c < b)"

definition digits_value :: "nat \<Rightarrow> string \<Rightarrow> nat" where
  "digits_value b ds = foldl (\<lambda>acc c. acc * b + digit_val c) 0 ds"

definition ULONG_MAX :: nat where "ULONG_MAX = 2 ^ 64 - 1"

text \<open>An optional sign: whether it was a minus, and the text after it.\<close>

fun strip_sign :: "string \<Rightarrow> bool \<times> string" where
  "strip_sign [] = (False, [])"
| "strip_sign (c # r) =
     (if c = CHR ''-'' then (True, r)
      else if c = CHR ''+'' then (False, r)
      else (False, c # r))"

text \<open>Base detection of base 0: \<open>0x\<close>/\<open>0X\<close> is hexadecimal, another leading 0 octal.\<close>

fun detect_base :: "string \<Rightarrow> nat \<times> string" where
  "detect_base (c0 # c1 # r) =
     (if c0 = CHR ''0'' then
        (if c1 = CHR ''x'' \<or> c1 = CHR ''X'' then (16, r) else (8, c0 # c1 # r))
      else (10, c0 # c1 # r))"
| "detect_base [c0] = (if c0 = CHR ''0'' then (8, [c0]) else (10, [c0]))"
| "detect_base [] = (10, [])"

text \<open>
  \<open>strtoul s (&end) 0\<close>: the converted value and the text \<open>end\<close> points to. Without
  any digit nothing is converted and \<open>end\<close> is the start of the string (after a bare
  \<open>0x\<close> it points to the \<open>x\<close>); a value beyond \<open>ULONG_MAX\<close> saturates; a minus sign
  negates modulo \<open>2 ^ 64\<close>.
\<close>

definition strtoul :: "string \<Rightarrow> Window \<times> string" where
  "strtoul s =
     (let s1 = dropWhile isspace s;
          (neg, s2) = strip_sign s1;
          (b, s3) = detect_base s2;
          ds = takeWhile (in_base b) s3;
          rest = dropWhile (in_base b) s3
      in if ds = [] then (if b = 16 then (0, tl s2) else (0, s))
         else let v = digits_value b ds in
              if v > ULONG_MAX then (- 1, rest)
              else if neg then (- of_nat v, rest)
              else (of_nat v, rest))"

text \<open>
  \<open>atoi s\<close> is \<open>(int) strtol (s, NULL, 10)\<close>: a \<open>long\<close> that saturates, cut to 32 bits.
\<close>

definition atoi :: "string \<Rightarrow> int" where
  "atoi s =
     (let s1 = dropWhile isspace s;
          (neg, s2) = strip_sign s1;
          v = int (digits_value 10 (takeWhile isdigit s2));
          l = (if neg then max (- v) (- (2 ^ 63)) else min v (2 ^ 63 - 1))
      in sint (word_of_int l :: 32 word))"

definition hex_digit :: "nat \<Rightarrow> char" where
  "hex_digit d = (if d < 10 then char_of (48 + d) else char_of (87 + d))"

function to_hex :: "nat \<Rightarrow> string" where
  "to_hex n = (if n < 16 then [hex_digit n] else to_hex (n div 16) @ [hex_digit (n mod 16)])"
  by pat_completeness auto
termination
  by (relation "measure id") auto

declare to_hex.simps [simp del]

text \<open>The \<open>%#lx\<close> conversion: \<open>0x\<close> in front of a value that is not zero.\<close>

definition format_hash_lx :: "Window \<Rightarrow> string" where
  "format_hash_lx w = (if w = 0 then ''0'' else ''0x'' @ to_hex (unat w))"

section \<open>The resume matcher\<close>

text \<open>
  What the operating system answers for one pid during one call of
  \<open>checkAndResumeProcess\<close>: whether the two path strings could be allocated, which
  buffer sizes \<open>realloc\<close> grants, the result of \<open>readlink\<close> on \<open>/proc/pid/exe\<close>, of
  \<open>open\<close> and \<open>read\<close> on \<open>/proc/pid/cmdline\<close>, and of \<open>kill\<close>.
\<close>

datatype readlink_ret = Readlink_Err int | Readlink_Ok string
datatype read_ret = Read_Err int | Read_Ok string

record proc_entry =
  exePath_ok :: bool
  exe_mem :: "nat \<Rightarrow> bool"
  exe_link :: readlink_ret
  cmdlinePath_ok :: bool
  cmdline_open :: "int option"
  cmdline_mem :: "nat \<Rightarrow> bool"
  cmdline_read :: read_ret
  kill_ret :: "int option"

text \<open>The calls the resume operation is observed by: a matcher invocation and a signal sent.\<close>

datatype event = Check int | Kill int "32 word"

definition cut_deleted :: "string \<Rightarrow> string" where
  "cut_deleted link =
     (let suffix = '' (deleted)''; suffixLen = length suffix; linkSize = length link in
      if linkSize \<ge> suffixLen \<and> drop (linkSize - suffixLen) link = suffix
      then take (linkSize - suffixLen) link else link)"

text \<open>
  \<open>allocReadlink\<close>: the buffer starts at 256 bytes and doubles (\<open>256 * 2 ^ k\<close> in round
  \<open>k\<close>) until the link is shorter than the buffer. The result is the function's return
  value and the string stored through \<open>returnLink\<close> (\<open>None\<close> for \<open>NULL\<close>).
\<close>

function allocReadlink_from :: "nat \<Rightarrow> (nat \<Rightarrow> bool) \<Rightarrow> string \<Rightarrow> bool \<times> string option" where
  "allocReadlink_from k mem target =
     (let size = 256 * 2 ^ k in
      if \<not> mem size then (False, None)
      else let linkSize = min (length target) size in
           if linkSize < size then (True, Some (cut_deleted (take linkSize target)))
           else allocReadlink_from (k + 1) mem target)"
  by pat_completeness auto
termination
proof (relation "measure (\<lambda>(k, mem, target). length target + 1 - 256 * 2 ^ k)")
  show "wf (measure (\<lambda>(k, mem, target). length target + 1 - 256 * 2 ^ k))"
    by simp
next
  fix k :: nat and mem :: "nat \<Rightarrow> bool" and target :: string and size n :: nat
  assume size: "size = 256 * 2 ^ k" and n: "n = min (length target) size" "\<not> n < size"
  have "0 < size"
    using size by simp
  with n have "Suc (length target) - 2 * size < Suc (length target) - size"
    by arith
  with size show "((k + 1, mem, target), k, mem, target)
      \<in> measure (\<lambda>(k, mem, target). length target + 1 - 256 * 2 ^ k)"
    by simp
qed

declare allocReadlink_from.simps [simp del]

definition allocReadlink :: "(nat \<Rightarrow> bool) \<Rightarrow> readlink_ret \<Rightarrow> bool \<Rightarrow> bool \<times> string option" where
  "allocReadlink mem rl ignoreAccesError =
     (if \<not> mem 256 then (False, None)
      else case rl of
        Readlink_Err errno \<Rightarrow>
          if ignoreAccesError \<and> (errno = EACCES \<or> errno = ENOENT) then (True, None)
          else (False, None)
      | Readlink_Ok target \<Rightarrow> allocReadlink_from 0 mem target)"

text \<open>
  The read loop of the argument blob: the buffer starts at 1024 bytes and doubles until
  a read leaves it partly empty. A \<open>read\<close> that succeeds returns the bytes that are left
  in the file, as many as the buffer has room for; one that fails does so at the first
  call. \<open>None\<close> is the \<open>cleanReturn(false)\<close> of a failed \<open>realloc\<close> or \<open>read\<close>.
\<close>

function read_cmdline_from :: "nat \<Rightarrow> (nat \<Rightarrow> bool) \<Rightarrow> string \<Rightarrow> string option" where
  "read_cmdline_from k mem blob =
     (let size = 1024 * 2 ^ k in
      if \<not> mem size then None
      else let cmdlineSize = min (length blob) size in
           if cmdlineSize < size then Some (take cmdlineSize blob)
           else read_cmdline_from (k + 1) mem blob)"
  by pat_completeness auto
termination
proof (relation "measure (\<lambda>(k, mem, blob). length blob + 1 - 1024 * 2 ^ k)")
  show "wf (measure (\<lambda>(k, mem, blob). length blob + 1 - 1024 * 2 ^ k))"
    by simp
next
  fix k :: nat and mem :: "nat \<Rightarrow> bool" and blob :: string and size n :: nat
  assume size: "size = 1024 * 2 ^ k" and n: "n = min (length blob) size" "\<not> n < size"
  have "0 < size"
    using size by simp
  with n have "Suc (length blob) - 2 * size < Suc (length blob) - size"
    by arith
  with size show "((k + 1, mem, blob), k, mem, blob)
      \<in> measure (\<lambda>(k, mem, blob). length blob + 1 - 1024 * 2 ^ k)"
    by simp
qed

declare read_cmdline_from.simps [simp del]

definition read_cmdline :: "(nat \<Rightarrow> bool) \<Rightarrow> read_ret \<Rightarrow> string option" where
  "read_cmdline mem rd =
     (if \<not> mem 1024 then None
      else case rd of Read_Err errno \<Rightarrow> None | Read_Ok blob \<Rightarrow> read_cmdline_from 0 mem blob)"

text \<open>The C string that starts at offset \<open>i\<close> of a buffer, and its \<open>strlen\<close>.\<close>

definition cstr_at :: "string \<Rightarrow> nat \<Rightarrow> string" where
  "cstr_at buf i = takeWhile (\<lambda>c. c \<noteq> NUL) (drop i buf)"

definition strlen_at :: "string \<Rightarrow> nat \<Rightarrow> nat" where
  "strlen_at buf i = length (cstr_at buf i)"

text \<open>
  The tail of \<open>checkAndResumeProcess\<close> from the check of the blob on. The result is the
  function's return value and the \<open>kill\<close> calls it made (whether or not \<open>kill\<close>
  reported an error).
\<close>

definition check_cmdline :: "proc_entry \<Rightarrow> int \<Rightarrow> string \<Rightarrow> Window \<Rightarrow> bool \<times> event list" where
  "check_cmdline p pid cmdline window =
     (let cmdlineSize = length cmdline in
      if cmdlineSize < 1 \<or> last cmdline \<noteq> NUL then (False, [])
      else let cmdlineArg1Start = strlen_at cmdline 0 + 1 in
      if cmdlineArg1Start \<ge> cmdlineSize \<or> cstr_at cmdline cmdlineArg1Start \<noteq> ''suspend''
      then (True, [])
      else let cmdlineArg2Start = cmdlineArg1Start + strlen_at cmdline cmdlineArg1Start + 1 in
      if cmdlineArg2Start \<ge> cmdlineSize then (True, [])
      else let (cmdlineWindow, windowEnd) = strtoul (cstr_at cmdline cmdlineArg2Start) in
      if cstr_at cmdline cmdlineArg2Start = [] \<or> windowEnd \<noteq> [] \<or> cmdlineWindow \<noteq> window
      then (True, [])
      else let cmdlineArgsEnd = cmdlineArg2Start + strlen_at cmdline cmdlineArg2Start + 1 in
      if cmdlineArgsEnd \<noteq> cmdlineSize then (True, [])
      else case kill_ret p of
             None \<Rightarrow> (True, [Kill pid SIGTERM])
           | Some errno \<Rightarrow>
               if errno = EPERM \<or> errno = ESRCH then (True, [Kill pid SIGTERM])
               else (False, [Kill pid SIGTERM]))"

text \<open>
  \<open>checkAndResumeProcess\<close>. The parameter \<open>selfExeLink\<close> is received and, as in the
  source, used nowhere in the body.
\<close>

definition checkAndResumeProcess ::
  "(int \<Rightarrow> proc_entry) \<Rightarrow> int \<Rightarrow> string option \<Rightarrow> Window \<Rightarrow> bool \<times> event list" where
  "checkAndResumeProcess procs pid selfExeLink window =
     (let p = procs pid in
      if \<not> exePath_ok p then (False, [])
      else case allocReadlink (exe_mem p) (exe_link p) True of
        (False, _) \<Rightarrow> (False, [])
      | (True, None) \<Rightarrow> (True, [])
      | (True, Some exeLink) \<Rightarrow>
          if \<not> cmdlinePath_ok p then (False, [])
          else (case cmdline_open p of
            Some errno \<Rightarrow>
              if errno = EACCES \<or> errno = ENOENT then (True, []) else (False, [])
          | None \<Rightarrow>
              (case read_cmdline (cmdline_mem p) (cmdline_read p) of
                 None \<Rightarrow> (False, [])
               | Some cmdline \<Rightarrow> check_cmdline p pid cmdline window)))"

section \<open>The resume operation\<close>

text \<open>
  The environment of one \<open>resume\<close> run: the result of \<open>readlink\<close> on
  \<open>/proc/self/exe\<close>, whether \<open>opendir\<close> succeeds, the names \<open>readdir\<close> returns, in
  order, and the process table.
\<close>

record resume_env =
  self_mem :: "nat \<Rightarrow> bool"
  self_link :: readlink_ret
  opendir_ok :: bool
  dirents :: "string list"
  procs :: "int \<Rightarrow> proc_entry"

text \<open>
  The inner \<open>for\<close> loop over the characters of \<open>d_name\<close>: its \<open>continue\<close> continues
  this loop itself, so the loop changes nothing and tells the outer loop nothing.
\<close>

fun d_name_loop :: "string \<Rightarrow> unit" where
  "d_name_loop [] = ()"
| "d_name_loop (c # cs) = (if \<not> isdigit c then d_name_loop cs else d_name_loop cs)"

text \<open>The \<open>while\<close> loop over the directory entries, from the current \<open>returnValue\<close>.\<close>

fun scan_dirents ::
  "(int \<Rightarrow> proc_entry) \<Rightarrow> string option \<Rightarrow> Window \<Rightarrow> string list \<Rightarrow> bool \<Rightarrow> bool \<times> event list" where
  "scan_dirents ps selfExeLink window [] returnValue = (returnValue, [])"
| "scan_dirents ps selfExeLink window (d_name # rest) returnValue =
     (let u = d_name_loop d_name;
          pid = atoi d_name;
          (ok, evs) = checkAndResumeProcess ps pid selfExeLink window;
          (r, evs') = scan_dirents ps selfExeLink window rest (if \<not> ok then False else returnValue)
      in (r, Check pid # evs @ evs'))"

definition operationResume :: "resume_env \<Rightarrow> Window \<Rightarrow> bool \<times> event list" where
  "operationResume env window =
     (case allocReadlink (self_mem env) (self_link env) False of
        (False, _) \<Rightarrow> (False, [])
      | (True, selfExeLink) \<Rightarrow>
          if \<not> opendir_ok env then (False, [])
          else scan_dirents (procs env) selfExeLink window (dirents env) True)"

section \<open>The suspend operation\<close>

text \<open>
  The global \<open>operationSuspendData\<close>. A pointer field is kept as the fact that it is not
  \<open>NULL\<close>; \<open>dbusErr\<close> only carries the text of diagnostics and is left out.
\<close>

record operationSuspendData_t =
  dbusConn :: bool
  inhibitReason :: "string option"
  inhibitMsg :: bool
  inhibitReplyMsg :: bool
  unInhibitMsg :: bool
  unInhibitReplyMsg :: bool
  screenSaverInhibitCookie :: dbus_uint32_t
  screenSaverInhibited :: bool
  display :: bool
  signalFd :: int

text \<open>
  The calls a suspend run is observed by: the two D-Bus method calls that are sent, the
  \<open>free\<close> of the reason string (the first unconditional step of the cleanup), and the
  release of the connection, the signal handle and the display.
\<close>

datatype call =
    Call_Inhibit string string
  | Call_UnInhibit dbus_uint32_t
  | Free_inhibitReason
  | Connection_unref
  | Close_fd int
  | Reset_XHandlers
  | Close_Display
  | Install_XHandlers
  | Call_fork

datatype dbus_arg = Arg_UInt32 dbus_uint32_t | Arg_Other

datatype xopen_ret = XOpen_Display | XOpen_NULL | XOpen_IOError
datatype xcall_ret = X_Ok | X_Error | X_IOError

text \<open>
  One round of the wait loop as the environment plays it: the items \<open>XNextEvent\<close>
  delivers while \<open>XPending\<close> is positive (an event with its type and the window of
  \<open>xdestroywindow.event\<close>, or an error that Xlib hands to a handler), what \<open>select\<close>
  then returns (failure, or which of \<open>signalFd\<close> and \<open>xServerFd\<close> are readable), and
  what the \<open>read\<close> of the signal handle returns.
\<close>

datatype xitem = X_Event nat Window | X_ProtoError | X_ConnError
datatype select_result = Select_Err | Select_Ready bool bool
datatype signal_read_ret = SigRead_Err | SigRead "32 word"

record iteration =
  pending :: "xitem list"
  select_ret :: select_result
  signal_read :: signal_read_ret

definition DestroyNotify :: nat where "DestroyNotify = 17"

record suspend_env =
  sigprocmask_ret :: int
  signalfd_ret :: int
  dbus_bus_get_ok :: bool
  inhibit_new_ok :: bool
  inhibit_append_prog_ok :: bool
  reason_alloc_ok :: bool
  inhibit_append_reason_ok :: bool
  inhibit_reply :: "dbus_arg list option"
  xopen :: xopen_ret
  xsync :: xcall_ret
  fork_ret :: int
  iterations :: "iteration list"
  unInhibit_new_ok :: bool
  unInhibit_append_ok :: bool
  unInhibit_reply :: "dbus_arg list option"

text \<open>How a run of the process ends: the operation returns, the process exits before
  that, or the loop waits in \<open>select\<close> for ever.\<close>

datatype outcome = Returned bool | Exited int | Blocked

text \<open>The un-inhibit part of \<open>operationSuspendFinish\<close>: its share of the return value
  and whether the method call was sent.\<close>

definition unInhibitScreenSaver :: "suspend_env \<Rightarrow> operationSuspendData_t \<Rightarrow> bool \<times> call list" where
  "unInhibitScreenSaver env d =
     (if \<not> screenSaverInhibited d then (True, [])
      else if \<not> unInhibit_new_ok env then (False, [])
      else if \<not> unInhibit_append_ok env then (False, [])
      else (case unInhibit_reply env of
              None \<Rightarrow> (False, [Call_UnInhibit (screenSaverInhibitCookie d)])
            | Some args \<Rightarrow>
                if args \<noteq> [] then (False, [Call_UnInhibit (screenSaverInhibitCookie d)])
                else (True, [Call_UnInhibit (screenSaverInhibitCookie d)])))"

definition operationSuspendFinish :: "suspend_env \<Rightarrow> operationSuspendData_t \<Rightarrow> bool \<times> call list" where
  "operationSuspendFinish env d =
     (let (returnValue, sent) = unInhibitScreenSaver env d in
      (returnValue,
       [Free_inhibitReason] @ sent
       @ (if dbusConn d then [Connection_unref] else [])
       @ (if signalFd d \<noteq> - 1 then [Close_fd (signalFd d)] else [])
       @ (if display d then [Reset_XHandlers, Close_Display] else [])))"

text \<open>
  The two X error handlers: clear \<open>display\<close>, run the cleanup, leave the process with a
  failure code (\<open>_XDefaultError\<close> and \<open>_XDefaultIOError\<close> exit with 1 themselves
  when they do not return).
\<close>

definition operationSuspendXErrorHandler ::
  "suspend_env \<Rightarrow> operationSuspendData_t \<Rightarrow> call list \<Rightarrow> outcome \<times> call list" where
  "operationSuspendXErrorHandler env d calls =
     (let (r, cs) = operationSuspendFinish env (d\<lparr>display := False\<rparr>) in
      (Exited EXIT_FAILURE, calls @ cs))"

definition operationSuspendXIOErrorHandler ::
  "suspend_env \<Rightarrow> operationSuspendData_t \<Rightarrow> call list \<Rightarrow> outcome \<times> call list" where
  "operationSuspendXIOErrorHandler env d calls =
     (let (r, cs) = operationSuspendFinish env (d\<lparr>display := False\<rparr>) in
      (Exited EXIT_FAILURE, calls @ cs))"

text \<open>The label \<open>cleanReturn\<close> of \<open>operationSuspend\<close>, reached with a return value.\<close>

definition cleanReturn ::
  "suspend_env \<Rightarrow> operationSuspendData_t \<Rightarrow> bool \<Rightarrow> call list \<Rightarrow> outcome \<times> call list" where
  "cleanReturn env d returnValue calls =
     (let (ok, cs) = operationSuspendFinish env d in
      (Returned (if \<not> ok then False else returnValue), calls @ cs))"

text \<open>The inner loop that empties the event queue.\<close>

datatype drain_result = Queue_Empty | Window_Destroyed | Error_Handler | IOError_Handler

fun drain_events :: "Window \<Rightarrow> xitem list \<Rightarrow> drain_result" where
  "drain_events window [] = Queue_Empty"
| "drain_events window (X_Event type ev # q) =
     (if type = DestroyNotify \<and> ev = window then Window_Destroyed else drain_events window q)"
| "drain_events window (X_ProtoError # q) = Error_Handler"
| "drain_events window (X_ConnError # q) = IOError_Handler"

text \<open>
  The \<open>while (true)\<close> loop, played against the rounds the environment provides. When
  they are used up nothing becomes readable any more and \<open>select\<close>, which has no
  timeout, does not return.
\<close>

datatype loop_exit = Clean_Return bool | XError_Exit | XIOError_Exit | Still_Blocked

fun wait_loop :: "Window \<Rightarrow> iteration list \<Rightarrow> loop_exit" where
  "wait_loop window [] = Still_Blocked"
| "wait_loop window (it # its) =
     (case drain_events window (pending it) of
        Window_Destroyed \<Rightarrow> Clean_Return True
      | Error_Handler \<Rightarrow> XError_Exit
      | IOError_Handler \<Rightarrow> XIOError_Exit
      | Queue_Empty \<Rightarrow>
          (case select_ret it of
             Select_Err \<Rightarrow> Clean_Return False
           | Select_Ready sig_ready x_ready \<Rightarrow>
               if sig_ready then
                 (case signal_read it of
                    SigRead_Err \<Rightarrow> Clean_Return False
                  | SigRead ssi_signo \<Rightarrow> Clean_Return (ssi_signo = SIGTERM))
               else wait_loop window its))"

text \<open>
  \<open>operationSuspend\<close> up to the point where the cookie is stored: the session data, the
  calls made, and whether the run goes on (otherwise it takes \<open>cleanReturn(false)\<close>).
\<close>

definition suspend_inhibit ::
  "suspend_env \<Rightarrow> string \<Rightarrow> Window \<Rightarrow> operationSuspendData_t \<times> call list \<times> bool" where
  "suspend_inhibit env prog window =
     (let d = \<lparr>dbusConn = False, inhibitReason = None, inhibitMsg = False,
                inhibitReplyMsg = False, unInhibitMsg = False, unInhibitReplyMsg = False,
                screenSaverInhibitCookie = 0, screenSaverInhibited = False,
                display = False, signalFd = - 1\<rparr> in
      if sigprocmask_ret env < 0 then (d, [], False)
      else let d = d\<lparr>signalFd := signalfd_ret env\<rparr> in
      if signalfd_ret env < 0 then (d, [], False)
      else if \<not> dbus_bus_get_ok env then (d, [], False)
      else let d = d\<lparr>dbusConn := True\<rparr> in
      if \<not> inhibit_new_ok env then (d, [], False)
      else let d = d\<lparr>inhibitMsg := True\<rparr> in
      if \<not> inhibit_append_prog_ok env then (d, [], False)
      else if \<not> reason_alloc_ok env then (d, [], False)
      else let reason = ''waiting for X window '' @ format_hash_lx window;
               d = d\<lparr>inhibitReason := Some reason\<rparr> in
      if \<not> inhibit_append_reason_ok env then (d, [], False)
      else (case inhibit_reply env of
              None \<Rightarrow> (d, [Call_Inhibit prog reason], False)
            | Some args \<Rightarrow>
                (let d = d\<lparr>inhibitReplyMsg := True\<rparr> in
                 case args of
                   Arg_UInt32 cookie # further \<Rightarrow>
                     (d\<lparr>screenSaverInhibitCookie := cookie, screenSaverInhibited := True\<rparr>,
                      [Call_Inhibit prog reason], further = [])
                 | _ \<Rightarrow> (d, [Call_Inhibit prog reason], False))))"

text \<open>The rest of \<open>operationSuspend\<close>: handlers, display, fork and the wait loop.\<close>

definition suspend_watch ::
  "suspend_env \<Rightarrow> operationSuspendData_t \<Rightarrow> Window \<Rightarrow> call list \<Rightarrow> outcome \<times> call list" where
  "suspend_watch env d window calls =
     (let calls = calls @ [Install_XHandlers] in
      case xopen env of
        XOpen_NULL \<Rightarrow> cleanReturn env d False calls
      | XOpen_IOError \<Rightarrow> operationSuspendXIOErrorHandler env d calls
      | XOpen_Display \<Rightarrow>
          (let d = d\<lparr>display := True\<rparr> in
           case xsync env of
             X_Error \<Rightarrow> operationSuspendXErrorHandler env d calls
           | X_IOError \<Rightarrow> operationSuspendXIOErrorHandler env d calls
           | X_Ok \<Rightarrow>
               (let calls = calls @ [Call_fork] in
                if fork_ret env \<noteq> 0 then (Exited EXIT_SUCCESS, calls)
                else (case wait_loop window (iterations env) of
                        Clean_Return returnValue \<Rightarrow> cleanReturn env d returnValue calls
                      | XError_Exit \<Rightarrow> operationSuspendXErrorHandler env d calls
                      | XIOError_Exit \<Rightarrow> operationSuspendXIOErrorHandler env d calls
                      | Still_Blocked \<Rightarrow> (Blocked, calls)))))"

definition operationSuspend :: "suspend_env \<Rightarrow> string \<Rightarrow> Window \<Rightarrow> outcome \<times> call list" where
  "operationSuspend env prog window =
     (let (d, calls, go_on) = suspend_inhibit env prog window in
      if go_on then suspend_watch env d window calls
      else cleanReturn env d False calls)"

text \<open>How often a run sent the release call.\<close>

fun is_UnInhibit :: "call \<Rightarrow> bool" where
  "is_UnInhibit (Call_UnInhibit cookie) = True"
| "is_UnInhibit _ = False"

definition releases :: "call list \<Rightarrow> nat" where
  "releases calls = length (filter is_UnInhibit calls)"



text \<open>Whether the run got as far as storing a cookie.\<close>

definition cookie_acquired :: "suspend_env \<Rightarrow> string \<Rightarrow> Window \<Rightarrow> bool" where
  "cookie_acquired env prog window = screenSaverInhibited (fst (suspend_inhibit env prog window))"


text \<open>The pids a resume run handed to the matcher, and the pids it signalled.\<close>

fun checked_pids :: "event list \<Rightarrow> int list" where
  "checked_pids [] = []"
| "checked_pids (Check pid # evs) = pid # checked_pids evs"
| "checked_pids (Kill pid sig # evs) = checked_pids evs"

fun killed_pids :: "event list \<Rightarrow> int list" where
  "killed_pids [] = []"
| "killed_pids (Check pid # evs) = killed_pids evs"
| "killed_pids (Kill pid sig # evs) = pid # killed_pids evs"

section \<open>Sample environments\<close>

text \<open>An argument blob as the kernel lays it out, and a readable process with that blob.\<close>

definition cmdline_of :: "string list \<Rightarrow> string" where
  "cmdline_of args = concat (map (\<lambda>a. a @ [NUL]) args)"

definition proc_with :: "string \<Rightarrow> string \<Rightarrow> proc_entry" where
  "proc_with exe blob =
     \<lparr>exePath_ok = True, exe_mem = (\<lambda>size. True), exe_link = Readlink_Ok exe,
      cmdlinePath_ok = True, cmdline_open = None, cmdline_mem = (\<lambda>size. True),
      cmdline_read = Read_Ok blob, kill_ret = None\<rparr>"

text \<open>A pid whose \<open>/proc\<close> entry is gone: \<open>readlink\<close> fails with \<open>ENOENT\<close>.\<close>

definition proc_gone :: proc_entry where
  "proc_gone = (proc_with [] [])\<lparr>exe_link := Readlink_Err ENOENT\<rparr>"

text \<open>A listing of \<open>/proc\<close> with one numeric and one other name, all processes gone.\<close>

definition env_listing :: resume_env where
  "env_listing =
     \<lparr>self_mem = (\<lambda>size. True), self_link = Readlink_Ok ''/usr/bin/xdg-screensaver'',
      opendir_ok = True, dirents = [''1'', ''self''], procs = (\<lambda>pid. proc_gone)\<rparr>"

text \<open>A listing with a process whose argument blob is empty.\<close>

definition env_empty_cmdline :: resume_env where
  "env_empty_cmdline = env_listing\<lparr>dirents := [''7''], procs := (\<lambda>pid. proc_with ''/bin/true'' [])\<rparr>"



text \<open>
  A zombie: \<open>readlink\<close> on its executable link fails with \<open>ENOENT\<close>, and its argument
  blob opens and reads as zero bytes.
\<close>

definition proc_zombie :: proc_entry where
  "proc_zombie = (proc_with [] [])\<lparr>exe_link := Readlink_Err ENOENT\<rparr>"

definition env_zombie :: resume_env where
  "env_zombie = env_listing\<lparr>dirents := [''7''], procs := (\<lambda>pid. proc_zombie)\<rparr>"

text \<open>A suspend run in which every call succeeds; the child's view of the fork.\<close>

definition env_ok :: suspend_env where
  "env_ok = \<lparr>sigprocmask_ret = 0, signalfd_ret = 3, dbus_bus_get_ok = True,
     inhibit_new_ok = True, inhibit_append_prog_ok = True, reason_alloc_ok = True,
     inhibit_append_reason_ok = True, inhibit_reply = Some [Arg_UInt32 7],
     xopen = XOpen_Display, xsync = X_Ok, fork_ret = 0, iterations = [],
     unInhibit_new_ok = True, unInhibit_append_ok = True, unInhibit_reply = Some []\<rparr>"

text \<open>A round that finds the destruction of \<open>w\<close> queued, and a round in which
  \<open>select\<close> reports a signal.\<close>

definition destroyed_round :: "Window \<Rightarrow> iteration" where
  "destroyed_round w = \<lparr>pending = [X_Event DestroyNotify w], select_ret = Select_Ready False False,
     signal_read = SigRead_Err\<rparr>"

definition signal_round :: "32 word \<Rightarrow> bool \<Rightarrow> iteration" where
  "signal_round signo x_ready =
     \<lparr>pending = [], select_ret = Select_Ready True x_ready, signal_read = SigRead signo\<rparr>"

definition env_fork_fails :: suspend_env where
  "env_fork_fails = env_ok\<lparr>fork_ret := - 1\<rparr>"

definition env_destroyed :: suspend_env where
  "env_destroyed = env_ok\<lparr>iterations := [destroyed_round 0x1a2b]\<rparr>"

definition env_release_nomem :: suspend_env where
  "env_release_nomem = env_destroyed\<lparr>unInhibit_new_ok := False\<rparr>"

definition env_hangup :: suspend_env where
  "env_hangup = env_ok\<lparr>iterations := [signal_round SIGHUP False]\<rparr>"

text \<open>The window is destroyed and \<open>SIGINT\<close> arrives while the loop waits in \<open>select\<close>:
  both handles are readable when it returns.\<close>

definition env_race :: suspend_env where
  "env_race = env_ok\<lparr>iterations := [signal_round SIGINT True, destroyed_round 0x1a2b]\<rparr>"

text \<open>The destruction is already queued when the round starts, and \<open>SIGINT\<close> is ready
  as well.\<close>

definition env_queued :: suspend_env where
  "env_queued = env_ok\<lparr>iterations :=
     [(destroyed_round 0x1a2b)\<lparr>select_ret := Select_Ready True True,
        signal_read := SigRead SIGINT\<rparr>]\<rparr>"

section \<open>The suspend operation: the cleanup and the release call\<close>

lemma releases_append: "releases (a @ b) = releases a + releases b"
  by (simp add: releases_def)

lemma releases_Nil: "releases [] = 0"
  by (simp add: releases_def)

lemma releases_Cons: "releases (c # cs) = (if is_UnInhibit c then 1 else 0) + releases cs"
  by (simp add: releases_def)

lemma releases_unInhibit:
  "releases (snd (unInhibitScreenSaver env d)) =
     (if screenSaverInhibited d \<and> unInhibit_new_ok env \<and> unInhibit_append_ok env then 1 else 0)"
  by (simp add: unInhibitScreenSaver_def releases_def split: option.splits)

lemma releases_Finish:
  "releases (snd (operationSuspendFinish env d)) =
     (if screenSaverInhibited d \<and> unInhibit_new_ok env \<and> unInhibit_append_ok env then 1 else 0)"
proof -
  obtain r s where u: "unInhibitScreenSaver env d = (r, s)"
    by (cases "unInhibitScreenSaver env d")
  have "releases s =
      (if screenSaverInhibited d \<and> unInhibit_new_ok env \<and> unInhibit_append_ok env then 1 else 0)"
    using releases_unInhibit [of env d] u by simp
  then show ?thesis
    by (simp add: operationSuspendFinish_def u releases_def)
qed

lemma Free_in_Finish: "Free_inhibitReason \<in> set (snd (operationSuspendFinish env d))"
  by (simp add: operationSuspendFinish_def split_beta)

lemma Finish_no_fork: "Call_fork \<notin> set (snd (operationSuspendFinish env d))"
  by (simp add: operationSuspendFinish_def unInhibitScreenSaver_def split_beta split: option.splits)

lemma fst_Finish:
  "fst (operationSuspendFinish env d) =
     (screenSaverInhibited d \<longrightarrow>
        unInhibit_new_ok env \<and> unInhibit_append_ok env \<and> unInhibit_reply env = Some [])"
  by (auto simp add: operationSuspendFinish_def unInhibitScreenSaver_def split: option.splits)

text \<open>The three ways a run ends after the cleanup: each adds the calls of one cleanup.\<close>

lemma releases_cleanReturn:
  "releases (snd (cleanReturn env d v calls)) =
     releases calls +
     (if screenSaverInhibited d \<and> unInhibit_new_ok env \<and> unInhibit_append_ok env then 1 else 0)"
  using releases_Finish [of env d]
  by (simp add: cleanReturn_def releases_append split_beta)

lemma releases_XErrorHandler:
  "releases (snd (operationSuspendXErrorHandler env d calls)) =
     releases calls +
     (if screenSaverInhibited d \<and> unInhibit_new_ok env \<and> unInhibit_append_ok env then 1 else 0)"
  using releases_Finish [of env "d\<lparr>display := False\<rparr>"]
  by (simp add: operationSuspendXErrorHandler_def releases_append split_beta)

lemma releases_XIOErrorHandler:
  "releases (snd (operationSuspendXIOErrorHandler env d calls)) =
     releases calls +
     (if screenSaverInhibited d \<and> unInhibit_new_ok env \<and> unInhibit_append_ok env then 1 else 0)"
  using releases_Finish [of env "d\<lparr>display := False\<rparr>"]
  by (simp add: operationSuspendXIOErrorHandler_def releases_append split_beta)

lemma Free_cleanReturn: "Free_inhibitReason \<in> set (snd (cleanReturn env d v calls))"
  using Free_in_Finish [of env d] by (simp add: cleanReturn_def split_beta)

lemma Free_XErrorHandler:
  "Free_inhibitReason \<in> set (snd (operationSuspendXErrorHandler env d calls))"
  using Free_in_Finish [of env "d\<lparr>display := False\<rparr>"]
  by (simp add: operationSuspendXErrorHandler_def split_beta)

lemma Free_XIOErrorHandler:
  "Free_inhibitReason \<in> set (snd (operationSuspendXIOErrorHandler env d calls))"
  using Free_in_Finish [of env "d\<lparr>display := False\<rparr>"]
  by (simp add: operationSuspendXIOErrorHandler_def split_beta)

lemma fork_cleanReturn:
  "Call_fork \<in> set (snd (cleanReturn env d v calls)) \<longleftrightarrow> Call_fork \<in> set calls"
  using Finish_no_fork [of env d] by (simp add: cleanReturn_def split_beta)

lemma fork_XErrorHandler:
  "Call_fork \<in> set (snd (operationSuspendXErrorHandler env d calls)) \<longleftrightarrow> Call_fork \<in> set calls"
  using Finish_no_fork [of env "d\<lparr>display := False\<rparr>"]
  by (simp add: operationSuspendXErrorHandler_def split_beta)

lemma fork_XIOErrorHandler:
  "Call_fork \<in> set (snd (operationSuspendXIOErrorHandler env d calls)) \<longleftrightarrow> Call_fork \<in> set calls"
  using Finish_no_fork [of env "d\<lparr>display := False\<rparr>"]
  by (simp add: operationSuspendXIOErrorHandler_def split_beta)

lemma fst_cleanReturn:
  "fst (cleanReturn env d v calls) = Returned (v \<and> fst (operationSuspendFinish env d))"
  by (auto simp add: cleanReturn_def split_beta)

lemmas terminal_releases = releases_cleanReturn releases_XErrorHandler releases_XIOErrorHandler
lemmas terminal_Free = Free_cleanReturn Free_XErrorHandler Free_XIOErrorHandler
lemmas terminal_fork = fork_cleanReturn fork_XErrorHandler fork_XIOErrorHandler

lemma suspend_watch_releases:
  "Free_inhibitReason \<notin> set calls \<Longrightarrow>
   releases (snd (suspend_watch env d window calls)) =
     releases calls +
     (if Free_inhibitReason \<in> set (snd (suspend_watch env d window calls))
         \<and> screenSaverInhibited d \<and> unInhibit_new_ok env \<and> unInhibit_append_ok env
      then 1 else 0)"
  by (simp add: suspend_watch_def Let_def terminal_releases terminal_Free releases_append
      releases_Cons releases_Nil
      split: xopen_ret.splits xcall_ret.splits loop_exit.splits)

lemma suspend_inhibit_calls:
  "releases (fst (snd (suspend_inhibit env prog window))) = 0
   \<and> Free_inhibitReason \<notin> set (fst (snd (suspend_inhibit env prog window)))
   \<and> Call_fork \<notin> set (fst (snd (suspend_inhibit env prog window)))"
  by (simp add: suspend_inhibit_def Let_def releases_def
      split: option.splits list.splits dbus_arg.splits)

lemma suspend_inhibit_go_on:
  "snd (snd (suspend_inhibit env prog window)) \<Longrightarrow>
     screenSaverInhibited (fst (suspend_inhibit env prog window))"
  by (simp add: suspend_inhibit_def Let_def
      split: option.splits list.splits dbus_arg.splits if_splits)

text \<open>The run calls \<open>fork\<close> only after the cookie is stored and the display is set up.\<close>

lemma reaches_fork:
  assumes "Call_fork \<in> set (snd (operationSuspend env prog window))"
  shows "snd (snd (suspend_inhibit env prog window))
    \<and> xopen env = XOpen_Display \<and> xsync env = X_Ok"
proof -
  obtain d calls go_on where s: "suspend_inhibit env prog window = (d, calls, go_on)"
    by (cases "suspend_inhibit env prog window")
  have c: "Call_fork \<notin> set calls"
    using suspend_inhibit_calls [of env prog window] s by simp
  show ?thesis
  proof (cases go_on)
    case True
    with assms c show ?thesis
      by (cases "xopen env"; cases "xsync env")
        (simp_all add: operationSuspend_def s suspend_watch_def Let_def terminal_fork)
  next
    case False
    with assms c show ?thesis
      by (simp add: operationSuspend_def s terminal_fork)
  qed
qed

text \<open>What the child reports once the loop is left through \<open>cleanReturn\<close>: the value the
  loop chose, unless the release of the cookie fails.\<close>

lemma loop_left:
  assumes "Call_fork \<in> set (snd (operationSuspend env prog window))"
    and "fork_ret env = 0"
    and "wait_loop window (iterations env) = Clean_Return v"
  shows "fst (operationSuspend env prog window) =
    Returned (v \<and> unInhibit_new_ok env \<and> unInhibit_append_ok env \<and> unInhibit_reply env = Some [])"
proof -
  obtain d calls go_on where s: "suspend_inhibit env prog window = (d, calls, go_on)"
    by (cases "suspend_inhibit env prog window")
  have r: "go_on" "xopen env = XOpen_Display" "xsync env = X_Ok"
    using reaches_fork [OF assms(1)] s by simp_all
  have "screenSaverInhibited d"
    using suspend_inhibit_go_on [of env prog window] s r(1) by simp
  then show ?thesis
    using r assms(2,3)
    by (simp add: operationSuspend_def s suspend_watch_def Let_def fst_cleanReturn fst_Finish)
qed

lemmas run_defs = operationSuspend_def suspend_inhibit_def suspend_watch_def cleanReturn_def
  operationSuspendFinish_def unInhibitScreenSaver_def operationSuspendXErrorHandler_def
  operationSuspendXIOErrorHandler_def cookie_acquired_def releases_def Let_def

lemmas sample_defs = env_ok_def env_fork_fails_def env_destroyed_def env_release_nomem_def
  env_hangup_def env_race_def env_queued_def destroyed_round_def signal_round_def

text \<open>
  \<^bold>\<open>C2\<close>, as the code has it. A run sends the release call \<open>UnInhibit\<close> once if it stored a
  cookie, its cleanup ran and the two allocations that build the release message
  succeeded; in every other case it sends it not at all. So the call is never sent twice,
  never without a cookie, and never by a run that ends without the cleanup (the parent of
  the fork, a loop that still waits). The claim's "at least once whenever the cleanup
  runs" does not hold: the cleanup skips the call when building the message fails.
\<close>

theorem release_count:
  "releases (snd (operationSuspend env prog window)) =
     (if Free_inhibitReason \<in> set (snd (operationSuspend env prog window))
         \<and> cookie_acquired env prog window \<and> unInhibit_new_ok env \<and> unInhibit_append_ok env
      then 1 else 0)"
proof -
  obtain d calls go_on where s: "suspend_inhibit env prog window = (d, calls, go_on)"
    by (cases "suspend_inhibit env prog window")
  have c: "releases calls = 0" "Free_inhibitReason \<notin> set calls"
    using suspend_inhibit_calls [of env prog window] s by simp_all
  show ?thesis
  proof (cases go_on)
    case True
    then show ?thesis
      using suspend_watch_releases [of calls env d window] c
      by (simp add: operationSuspend_def s cookie_acquired_def)
  next
    case False
    then show ?thesis
      using c by (simp add: operationSuspend_def s cookie_acquired_def terminal_releases terminal_Free)
  qed
qed

theorem release_count_witness:
  "cookie_acquired env_destroyed ''xdg-screensaver'' 0x1a2b
   \<and> Free_inhibitReason \<in> set (snd (operationSuspend env_destroyed ''xdg-screensaver'' 0x1a2b))
   \<and> unInhibit_new_ok env_destroyed \<and> unInhibit_append_ok env_destroyed
   \<and> releases (snd (operationSuspend env_destroyed ''xdg-screensaver'' 0x1a2b)) = 1"
proof -
  have h1: "cookie_acquired env_destroyed ''xdg-screensaver'' 0x1a2b"
    by (simp add: run_defs sample_defs)
  have h2: "Free_inhibitReason \<in> set (snd (operationSuspend env_destroyed ''xdg-screensaver'' 0x1a2b))"
    by (simp add: run_defs sample_defs)
  have h3: "unInhibit_new_ok env_destroyed \<and> unInhibit_append_ok env_destroyed"
    by (simp add: sample_defs)
  from release_count [of env_destroyed "''xdg-screensaver''" "0x1a2b"] h1 h2 h3
  show ?thesis by simp
qed

text \<open>
  The claim C2 as stated fails: the window is destroyed, the cleanup runs with the cookie
  held, \<open>dbus_message_new_method_call\<close> returns \<open>NULL\<close>, and no release call is sent.
\<close>

theorem release_skipped_counterexample:
  "cookie_acquired env_release_nomem ''xdg-screensaver'' 0x1a2b
   \<and> Free_inhibitReason \<in> set (snd (operationSuspend env_release_nomem ''xdg-screensaver'' 0x1a2b))
   \<and> releases (snd (operationSuspend env_release_nomem ''xdg-screensaver'' 0x1a2b)) = 0"
  by (simp add: run_defs sample_defs)

text \<open>
  \<^bold>\<open>C9\<close>. When the run reaches the fork and \<open>fork\<close> returns a negative value, the test
  \<open>fork() != 0\<close> takes the parent's branch: the process exits with \<open>EXIT_SUCCESS\<close>, the
  cleanup does not run, and the cookie it holds is not released.
\<close>

theorem fork_failure_exits_without_cleanup:
  assumes "Call_fork \<in> set (snd (operationSuspend env prog window))"
    and "fork_ret env < 0"
  shows "fst (operationSuspend env prog window) = Exited EXIT_SUCCESS
    \<and> Free_inhibitReason \<notin> set (snd (operationSuspend env prog window))
    \<and> releases (snd (operationSuspend env prog window)) = 0
    \<and> cookie_acquired env prog window"
proof -
  obtain d calls go_on where s: "suspend_inhibit env prog window = (d, calls, go_on)"
    by (cases "suspend_inhibit env prog window")
  have r: "go_on" "xopen env = XOpen_Display" "xsync env = X_Ok"
    using reaches_fork [OF assms(1)] s by simp_all
  have i: "screenSaverInhibited d"
    using suspend_inhibit_go_on [of env prog window] s r(1) by simp
  have c: "releases calls = 0" "Free_inhibitReason \<notin> set calls"
    using suspend_inhibit_calls [of env prog window] s by simp_all
  have "operationSuspend env prog window =
      (Exited EXIT_SUCCESS, calls @ [Install_XHandlers, Call_fork])"
    using r assms(2) by (simp add: operationSuspend_def s suspend_watch_def Let_def)
  then show ?thesis
    using c i by (simp add: releases_append releases_Cons releases_Nil cookie_acquired_def s)
qed

theorem fork_failure_exits_without_cleanup_witness:
  "Call_fork \<in> set (snd (operationSuspend env_fork_fails ''xdg-screensaver'' 0x1a2b))
   \<and> fork_ret env_fork_fails < 0
   \<and> fst (operationSuspend env_fork_fails ''xdg-screensaver'' 0x1a2b) = Exited EXIT_SUCCESS
   \<and> Free_inhibitReason \<notin> set (snd (operationSuspend env_fork_fails ''xdg-screensaver'' 0x1a2b))
   \<and> releases (snd (operationSuspend env_fork_fails ''xdg-screensaver'' 0x1a2b)) = 0
   \<and> cookie_acquired env_fork_fails ''xdg-screensaver'' 0x1a2b"
proof -
  have h1: "Call_fork \<in> set (snd (operationSuspend env_fork_fails ''xdg-screensaver'' 0x1a2b))"
    by (simp add: run_defs sample_defs)
  have h2: "fork_ret env_fork_fails < 0"
    by (simp add: sample_defs)
  from fork_failure_exits_without_cleanup [OF h1 h2] h1 h2 show ?thesis
    by simp
qed

section \<open>The wait loop\<close>

lemma wait_loop_append:
  "wait_loop window pre = Still_Blocked \<Longrightarrow> wait_loop window (pre @ rest) = wait_loop window rest"
  by (induction pre)
    (auto split: drain_result.splits select_result.splits signal_read_ret.splits if_splits)

lemma drain_events_destroyed:
  "X_ProtoError \<notin> set q1 \<Longrightarrow> X_ConnError \<notin> set q1 \<Longrightarrow>
     drain_events window (q1 @ X_Event DestroyNotify window # q2) = Window_Destroyed"
proof (induction q1)
  case Nil
  then show ?case by simp
next
  case (Cons x q1)
  then show ?case by (cases x) simp_all
qed




text \<open>
  \<^bold>\<open>C3\<close>, as the code has it. Each round empties the event queue before it calls
  \<open>select\<close>. If the destruction of the target window is in the queue when a round
  starts (behind events only, no X error), the round leaves the loop with
  \<open>cleanReturn(true)\<close> whatever \<open>select\<close> and the signal handle would have reported in
  that round, a ready gated signal included; the child then returns success unless the
  release of the cookie fails.
\<close>

theorem queued_destruction_wins:
  assumes "iterations env = pre @ it # post"
    and "wait_loop window pre = Still_Blocked"
    and "pending it = q1 @ X_Event DestroyNotify window # q2"
    and "X_ProtoError \<notin> set q1" and "X_ConnError \<notin> set q1"
  shows "wait_loop window (iterations env) = Clean_Return True
    \<and> (Call_fork \<in> set (snd (operationSuspend env prog window)) \<and> fork_ret env = 0 \<longrightarrow>
         fst (operationSuspend env prog window) =
           Returned (unInhibit_new_ok env \<and> unInhibit_append_ok env
                     \<and> unInhibit_reply env = Some []))"
proof -
  have w: "wait_loop window (iterations env) = Clean_Return True"
    using assms by (simp add: wait_loop_append drain_events_destroyed)
  with loop_left [of env prog window True] show ?thesis
    by auto
qed

theorem queued_destruction_wins_witness:
  "iterations env_queued = [] @ (destroyed_round 0x1a2b)\<lparr>select_ret := Select_Ready True True,
        signal_read := SigRead SIGINT\<rparr> # []
   \<and> wait_loop 0x1a2b [] = Still_Blocked
   \<and> pending ((destroyed_round 0x1a2b)\<lparr>select_ret := Select_Ready True True,
        signal_read := SigRead SIGINT\<rparr>) = [] @ X_Event DestroyNotify 0x1a2b # []
   \<and> X_ProtoError \<notin> set [] \<and> X_ConnError \<notin> set []
   \<and> Call_fork \<in> set (snd (operationSuspend env_queued ''xdg-screensaver'' 0x1a2b))
   \<and> fork_ret env_queued = 0
   \<and> wait_loop 0x1a2b (iterations env_queued) = Clean_Return True
   \<and> fst (operationSuspend env_queued ''xdg-screensaver'' 0x1a2b) = Returned True"
proof -
  have h1: "iterations env_queued = [] @ (destroyed_round 0x1a2b)\<lparr>select_ret := Select_Ready True True,
        signal_read := SigRead SIGINT\<rparr> # []"
    by (simp add: sample_defs)
  have h2: "wait_loop 0x1a2b [] = Still_Blocked" by simp
  have h3: "pending ((destroyed_round 0x1a2b)\<lparr>select_ret := Select_Ready True True,
        signal_read := SigRead SIGINT\<rparr>) = [] @ X_Event DestroyNotify 0x1a2b # []"
    by (simp add: destroyed_round_def)
  have h4: "X_ProtoError \<notin> set []" and h5: "X_ConnError \<notin> set []" by simp_all
  have h6: "Call_fork \<in> set (snd (operationSuspend env_queued ''xdg-screensaver'' 0x1a2b))"
    by (simp add: run_defs sample_defs)
  have h7: "fork_ret env_queued = 0"
    by (simp add: sample_defs)
  have h8: "unInhibit_new_ok env_queued \<and> unInhibit_append_ok env_queued
      \<and> unInhibit_reply env_queued = Some []"
    by (simp add: sample_defs)
  from queued_destruction_wins [OF h1 h2 h3 h4 h5, of "''xdg-screensaver''"] h1 h2 h3 h6 h7 h8
  show ?thesis by simp
qed

text \<open>
  The claim C3 as stated fails when the two become ready while the loop waits: \<open>select\<close>
  returns with the signal handle and the display handle both readable, the loop reads
  the signal (\<open>SIGINT\<close>) first and leaves with failure, and the destruction event, which
  the next round would have found, is never looked at.
\<close>

theorem signal_beats_destruction_counterexample:
  "select_ret (iterations env_race ! 0) = Select_Ready True True
   \<and> signal_read (iterations env_race ! 0) = SigRead SIGINT
   \<and> pending (iterations env_race ! 1) = [X_Event DestroyNotify 0x1a2b]
   \<and> wait_loop 0x1a2b (iterations env_race) = Clean_Return False
   \<and> fst (operationSuspend env_race ''xdg-screensaver'' 0x1a2b) = Returned False"
  by (simp add: run_defs sample_defs SIGINT_def SIGTERM_def)

section \<open>The resume matcher and the scan\<close>

lemma checked_pids_append: "checked_pids (a @ b) = checked_pids a @ checked_pids b"
  by (induction a rule: checked_pids.induct) simp_all

lemma killed_pids_append: "killed_pids (a @ b) = killed_pids a @ killed_pids b"
  by (induction a rule: killed_pids.induct) simp_all

lemma check_cmdline_events: "checked_pids (snd (check_cmdline p pid cmdline window)) = []"
  by (simp add: check_cmdline_def Let_def split_beta split: option.splits)

lemma matcher_events: "checked_pids (snd (checkAndResumeProcess ps pid self window)) = []"
  by (simp add: checkAndResumeProcess_def Let_def check_cmdline_events
      split: prod.splits option.splits bool.splits)

text \<open>The loop over the directory entries: its result, its invocations, its signals.\<close>

lemma scan_dirents_result:
  "fst (scan_dirents ps self window names rv) =
     (rv \<and> (\<forall>n\<in>set names. fst (checkAndResumeProcess ps (atoi n) self window)))"
  by (induction names arbitrary: rv) (auto simp add: split_beta Let_def)

lemma scan_dirents_checked:
  "checked_pids (snd (scan_dirents ps self window names rv)) = map atoi names"
  by (induction names arbitrary: rv)
    (simp_all add: split_beta Let_def checked_pids_append matcher_events)

lemma scan_dirents_killed:
  "killed_pids (snd (scan_dirents ps self window names rv)) =
     concat (map (\<lambda>n. killed_pids (snd (checkAndResumeProcess ps (atoi n) self window))) names)"
  by (induction names arbitrary: rv)
    (simp_all add: split_beta Let_def killed_pids_append)


lemmas matcher_defs = checkAndResumeProcess_def check_cmdline_def allocReadlink_def
  allocReadlink_from.simps read_cmdline_def read_cmdline_from.simps cut_deleted_def
  cstr_at_def strlen_at_def NUL_def cmdline_of_def proc_with_def proc_gone_def Let_def
  strtoul_def isspace_def isdigit_def in_base_def digit_val_def digits_value_def ULONG_MAX_def

lemmas listing_defs = env_listing_def env_empty_cmdline_def operationResume_def

text \<open>
  \<^bold>\<open>C4\<close>. Once \<open>/proc/self/exe\<close> was read and \<open>/proc\<close> opened, the scan calls the matcher
  once for every directory entry, in order and whatever the earlier calls returned; the
  operation fails exactly if some call returned false; and a scan in which every call is a
  plain non-match succeeds and sends no signal.
\<close>

theorem resume_scans_every_entry:
  assumes "allocReadlink (self_mem env) (self_link env) False = (True, selfExeLink)"
    and "opendir_ok env"
  shows "checked_pids (snd (operationResume env window)) = map atoi (dirents env)
    \<and> (fst (operationResume env window) = False \<longleftrightarrow>
         (\<exists>n\<in>set (dirents env).
            fst (checkAndResumeProcess (procs env) (atoi n) selfExeLink window) = False))
    \<and> ((\<forall>n\<in>set (dirents env).
           checkAndResumeProcess (procs env) (atoi n) selfExeLink window = (True, []))
        \<longrightarrow> fst (operationResume env window) = True
            \<and> killed_pids (snd (operationResume env window)) = [])"
proof -
  have r: "operationResume env window =
      scan_dirents (procs env) selfExeLink window (dirents env) True"
    using assms by (simp add: operationResume_def)
  have "concat (map (\<lambda>n. killed_pids
          (snd (checkAndResumeProcess (procs env) (atoi n) selfExeLink window))) (dirents env)) = []"
    if "\<forall>n\<in>set (dirents env).
           checkAndResumeProcess (procs env) (atoi n) selfExeLink window = (True, [])"
    using that by simp
  then show ?thesis
    by (auto simp add: r scan_dirents_result scan_dirents_checked scan_dirents_killed)
qed

theorem resume_scans_every_entry_witness:
  "allocReadlink (self_mem env_listing) (self_link env_listing) False
     = (True, Some ''/usr/bin/xdg-screensaver'')
   \<and> opendir_ok env_listing
   \<and> dirents env_listing = [''1'', ''self'']
   \<and> checkAndResumeProcess (procs env_listing) (atoi ''1'') (Some ''/usr/bin/xdg-screensaver'') 0x1a2b
       = (True, [])
   \<and> checkAndResumeProcess (procs env_listing) (atoi ''self'') (Some ''/usr/bin/xdg-screensaver'') 0x1a2b
       = (True, [])
   \<and> checked_pids (snd (operationResume env_listing 0x1a2b)) = map atoi [''1'', ''self'']
   \<and> fst (operationResume env_listing 0x1a2b) = True
   \<and> killed_pids (snd (operationResume env_listing 0x1a2b)) = []"
proof -
  have h1: "allocReadlink (self_mem env_listing) (self_link env_listing) False
     = (True, Some ''/usr/bin/xdg-screensaver'')"
    by (simp add: env_listing_def allocReadlink_def allocReadlink_from.simps cut_deleted_def)
  have h2: "opendir_ok env_listing"
    by (simp add: env_listing_def)
  have h3: "checkAndResumeProcess (procs env_listing) (atoi n) (Some ''/usr/bin/xdg-screensaver'') 0x1a2b
          = (True, [])" for n
    by (simp add: env_listing_def checkAndResumeProcess_def allocReadlink_def proc_gone_def
        proc_with_def ENOENT_def EACCES_def)
  have h4: "dirents env_listing = [''1'', ''self'']"
    by (simp add: env_listing_def)
  from resume_scans_every_entry [OF h1 h2, of "0x1a2b"] h1 h2 h3 h4 show ?thesis
    by simp
qed

text \<open>
  \<^bold>\<open>C7\<close>: the code at the entry \<open>self\<close>. The name is not numeric, yet the matcher is
  invoked for it, with the pid \<open>atoi "self" = 0\<close>: the \<open>continue\<close> of the digit test
  belongs to the inner loop and skips nothing.
\<close>

theorem non_numeric_entry_is_checked:
  "dirents env_listing = [''1'', ''self'']
   \<and> \<not> list_all isdigit ''self''
   \<and> checked_pids (snd (operationResume env_listing 0x1a2b)) = [1, 0]"
proof -
  have d: "dirents env_listing = [''1'', ''self'']"
    by (simp add: env_listing_def)
  have "operationResume env_listing 0x1a2b =
      scan_dirents (procs env_listing) (Some ''/usr/bin/xdg-screensaver'') 0x1a2b
        [''1'', ''self''] True"
    by (simp add: env_listing_def operationResume_def allocReadlink_def
        allocReadlink_from.simps cut_deleted_def)
  then have "checked_pids (snd (operationResume env_listing 0x1a2b)) = map atoi [''1'', ''self'']"
    by (simp only: scan_dirents_checked)
  moreover have "atoi ''1'' = 1" and "atoi ''self'' = 0"
    by (simp_all add: atoi_def isspace_def isdigit_def digits_value_def digit_val_def)
  moreover have "\<not> list_all isdigit ''self''"
    by (simp add: isdigit_def)
  ultimately show ?thesis
    using d by simp
qed

text \<open>
  A blob that opens but cannot be read is a hard error, whatever the error number: the
  \<open>read\<close> branch of the matcher tests no \<open>errno\<close>.
\<close>

lemma read_failure_is_hard_error:
  assumes "exePath_ok (ps pid)"
    and "allocReadlink (exe_mem (ps pid)) (exe_link (ps pid)) True = (True, Some exeLink)"
    and "cmdlinePath_ok (ps pid)"
    and "cmdline_open (ps pid) = None"
    and "cmdline_read (ps pid) = Read_Err errno"
  shows "checkAndResumeProcess ps pid self window = (False, [])"
proof -
  have "read_cmdline (cmdline_mem (ps pid)) (cmdline_read (ps pid)) = None"
    using assms(5) by (simp add: read_cmdline_def)
  with assms(1-4) show ?thesis
    by (simp add: checkAndResumeProcess_def)
qed




text \<open>
  \<^bold>\<open>C10\<close>, as the code has it. A candidate whose executable link is readable and whose
  argument blob opens and reads as zero bytes makes the matcher return false (the
  "Invalid cmdline" branch), without a signal; a listing that contains it makes the resume
  operation fail. The readable link is needed: the matcher looks at the blob only after it
  has read the link.
\<close>

theorem empty_cmdline_is_hard_error:
  assumes "exePath_ok (procs env (atoi d_name))"
    and "allocReadlink (exe_mem (procs env (atoi d_name))) (exe_link (procs env (atoi d_name))) True
           = (True, Some exeLink)"
    and "cmdlinePath_ok (procs env (atoi d_name))"
    and "cmdline_open (procs env (atoi d_name)) = None"
    and "cmdline_mem (procs env (atoi d_name)) 1024"
    and "cmdline_read (procs env (atoi d_name)) = Read_Ok []"
  shows "checkAndResumeProcess (procs env) (atoi d_name) self window = (False, [])
    \<and> (d_name \<in> set (dirents env) \<longrightarrow> fst (operationResume env window) = False)"
proof -
  have "read_cmdline_from 0 (cmdline_mem (procs env (atoi d_name))) [] = Some []"
    using assms(5) by (simp add: read_cmdline_from.simps)
  then have r: "read_cmdline (cmdline_mem (procs env (atoi d_name)))
      (cmdline_read (procs env (atoi d_name))) = Some []"
    using assms(5,6) by (simp add: read_cmdline_def)
  have m: "checkAndResumeProcess (procs env) (atoi d_name) s window = (False, [])" for s
    using assms(1-4) r by (simp add: checkAndResumeProcess_def check_cmdline_def)
  then have f: "\<not> fst (checkAndResumeProcess (procs env) (atoi d_name) s window)" for s
    by simp
  have "fst (operationResume env window) = False" if "d_name \<in> set (dirents env)"
  proof (cases "allocReadlink (self_mem env) (self_link env) False")
    case (Pair ok selfExeLink)
    show ?thesis
      using that f [of selfExeLink]
      by (cases ok) (auto simp add: operationResume_def Pair scan_dirents_result)
  qed
  with m show ?thesis by simp
qed

theorem empty_cmdline_is_hard_error_witness:
  "exePath_ok (procs env_empty_cmdline (atoi ''7''))
   \<and> allocReadlink (exe_mem (procs env_empty_cmdline (atoi ''7'')))
        (exe_link (procs env_empty_cmdline (atoi ''7''))) True = (True, Some ''/bin/true'')
   \<and> cmdlinePath_ok (procs env_empty_cmdline (atoi ''7''))
   \<and> cmdline_open (procs env_empty_cmdline (atoi ''7'')) = None
   \<and> cmdline_mem (procs env_empty_cmdline (atoi ''7'')) 1024
   \<and> cmdline_read (procs env_empty_cmdline (atoi ''7'')) = Read_Ok []
   \<and> ''7'' \<in> set (dirents env_empty_cmdline)
   \<and> checkAndResumeProcess (procs env_empty_cmdline) (atoi ''7'')
        (Some ''/usr/bin/xdg-screensaver'') 0x1a2b = (False, [])
   \<and> fst (operationResume env_empty_cmdline 0x1a2b) = False"
proof -
  have h1: "exePath_ok (procs env_empty_cmdline (atoi ''7''))"
    by (simp add: listing_defs proc_with_def)
  have h2: "allocReadlink (exe_mem (procs env_empty_cmdline (atoi ''7'')))
        (exe_link (procs env_empty_cmdline (atoi ''7''))) True = (True, Some ''/bin/true'')"
    by (simp add: listing_defs proc_with_def allocReadlink_def allocReadlink_from.simps
        cut_deleted_def)
  have h3: "cmdlinePath_ok (procs env_empty_cmdline (atoi ''7''))"
    by (simp add: listing_defs proc_with_def)
  have h4: "cmdline_open (procs env_empty_cmdline (atoi ''7'')) = None"
    by (simp add: listing_defs proc_with_def)
  have h5: "cmdline_mem (procs env_empty_cmdline (atoi ''7'')) 1024"
    by (simp add: listing_defs proc_with_def)
  have h6: "cmdline_read (procs env_empty_cmdline (atoi ''7'')) = Read_Ok []"
    by (simp add: listing_defs proc_with_def)
  have h7: "''7'' \<in> set (dirents env_empty_cmdline)"
    by (simp add: listing_defs)
  from empty_cmdline_is_hard_error [OF h1 h2 h3 h4 h5 h6,
      of "Some ''/usr/bin/xdg-screensaver''" "0x1a2b"] h1 h2 h3 h4 h5 h6 h7
  show ?thesis by simp
qed

text \<open>
  The claim C10 as stated fails at its own example, a zombie: the blob opens and reads as
  zero bytes, but \<open>readlink\<close> on the executable link fails with \<open>ENOENT\<close> first, so
  the matcher returns true without looking at the blob and the resume operation succeeds.
\<close>

theorem zombie_counterexample:
  "exe_link proc_zombie = Readlink_Err ENOENT
   \<and> cmdline_open proc_zombie = None
   \<and> cmdline_read proc_zombie = Read_Ok []
   \<and> dirents env_zombie = [''7'']
   \<and> checkAndResumeProcess (procs env_zombie) (atoi ''7'')
        (Some ''/usr/bin/xdg-screensaver'') 0x1a2b = (True, [])
   \<and> fst (operationResume env_zombie 0x1a2b) = True"
  by (simp add: env_zombie_def proc_zombie_def env_listing_def operationResume_def
      proc_with_def checkAndResumeProcess_def allocReadlink_def allocReadlink_from.simps
      cut_deleted_def ENOENT_def EACCES_def)

text \<open>
  What the matcher does require before it sends a signal: the argument blob consists of
  exactly three NUL-terminated strings, the second is \<open>suspend\<close>, and the third is a
  non-empty token that \<open>strtoul\<close> converts completely and to the target window id.
\<close>

lemma cstr_split:
  assumes "strlen_at buf i < length buf - i"
  shows "drop i buf = cstr_at buf i @ NUL # drop (i + strlen_at buf i + 1) buf"
proof -
  let ?P = "\<lambda>c. c \<noteq> NUL"
  let ?xs = "drop i buf"
  have l: "length (takeWhile ?P ?xs) < length ?xs"
    using assms by (simp add: strlen_at_def cstr_at_def)
  then have "\<not> ?P (?xs ! length (takeWhile ?P ?xs))"
    by (rule nth_length_takeWhile)
  then have n: "?xs ! length (takeWhile ?P ?xs) = NUL"
    by simp
  have "?xs = take (length (takeWhile ?P ?xs)) ?xs
      @ ?xs ! length (takeWhile ?P ?xs) # drop (Suc (length (takeWhile ?P ?xs))) ?xs"
    using l by (rule id_take_nth_drop)
  moreover have "take (length (takeWhile ?P ?xs)) ?xs = takeWhile ?P ?xs"
    by (rule takeWhile_eq_take [symmetric])
  ultimately have "?xs = takeWhile ?P ?xs @ NUL # drop (Suc (length (takeWhile ?P ?xs))) ?xs"
    using n by simp
  then show ?thesis
    by (simp add: strlen_at_def cstr_at_def add.commute)
qed

lemma cstr_no_NUL: "NUL \<notin> set (cstr_at buf i)"
  by (auto simp add: cstr_at_def dest: set_takeWhileD)

lemma check_cmdline_kill:
  assumes "Kill k sig \<in> set (snd (check_cmdline p pid cmdline window))"
  shows "k = pid \<and> sig = SIGTERM
    \<and> (\<exists>a0 tok. cmdline = a0 @ [NUL] @ ''suspend'' @ [NUL] @ tok @ [NUL]
          \<and> NUL \<notin> set a0 \<and> NUL \<notin> set tok \<and> tok \<noteq> [] \<and> strtoul tok = (window, []))"
proof -
  define a1 where "a1 = strlen_at cmdline 0 + 1"
  define a2 where "a2 = a1 + strlen_at cmdline a1 + 1"
  define tok where "tok = cstr_at cmdline a2"
  have c: "a1 < length cmdline" "cstr_at cmdline a1 = ''suspend''" "a2 < length cmdline"
    "tok \<noteq> []" "strtoul tok = (window, [])" "a2 + length tok + 1 = length cmdline"
    "k = pid \<and> sig = SIGTERM"
    using assms
    by (auto simp add: check_cmdline_def Let_def a1_def a2_def tok_def strlen_at_def
        split: if_splits prod.splits option.splits)
  have "drop 0 cmdline = cstr_at cmdline 0 @ NUL # drop (0 + strlen_at cmdline 0 + 1) cmdline"
    using c(1) by (intro cstr_split) (simp add: a1_def)
  then have s0: "cmdline = cstr_at cmdline 0 @ NUL # drop a1 cmdline"
    by (simp add: a1_def)
  have "drop a1 cmdline = cstr_at cmdline a1 @ NUL # drop (a1 + strlen_at cmdline a1 + 1) cmdline"
    using c(3) by (intro cstr_split) (simp add: a2_def)
  then have s1: "drop a1 cmdline = ''suspend'' @ NUL # drop a2 cmdline"
    by (simp add: c(2) a2_def)
  have "drop a2 cmdline = cstr_at cmdline a2 @ NUL # drop (a2 + strlen_at cmdline a2 + 1) cmdline"
    using c(6) by (intro cstr_split) (simp add: tok_def strlen_at_def)
  then have s2: "drop a2 cmdline = tok @ [NUL]"
    using c(6) by (simp add: tok_def strlen_at_def)
  have "cmdline = cstr_at cmdline 0 @ [NUL] @ ''suspend'' @ [NUL] @ tok @ [NUL]"
    using s0 s1 s2 by simp
  moreover have "NUL \<notin> set (cstr_at cmdline 0)" "NUL \<notin> set tok"
    by (simp_all add: tok_def cstr_no_NUL)
  ultimately show ?thesis
    using c(4,5,7) by blast
qed

lemma kill_needs_exact_argv:
  assumes "Kill k sig \<in> set (snd (checkAndResumeProcess ps pid self window))"
  shows "k = pid \<and> sig = SIGTERM
    \<and> (\<exists>exeLink. allocReadlink (exe_mem (ps pid)) (exe_link (ps pid)) True = (True, Some exeLink))
    \<and> (\<exists>a0 tok. read_cmdline (cmdline_mem (ps pid)) (cmdline_read (ps pid))
            = Some (a0 @ [NUL] @ ''suspend'' @ [NUL] @ tok @ [NUL])
          \<and> NUL \<notin> set a0 \<and> NUL \<notin> set tok \<and> tok \<noteq> [] \<and> strtoul tok = (window, []))"
proof -
  obtain cmdline exeLink where
    r: "read_cmdline (cmdline_mem (ps pid)) (cmdline_read (ps pid)) = Some cmdline"
    and e: "allocReadlink (exe_mem (ps pid)) (exe_link (ps pid)) True = (True, Some exeLink)"
    and k: "Kill k sig \<in> set (snd (check_cmdline (ps pid) pid cmdline window))"
    using assms
    by (auto simp add: checkAndResumeProcess_def Let_def
        split: if_splits prod.splits option.splits bool.splits)
  from check_cmdline_kill [OF k] r e show ?thesis
    by auto
qed

text \<open>
  \<^bold>\<open>C1\<close>: the code at a candidate that runs another executable. The process
  \<open>/usr/bin/sleep\<close> with the arguments \<open>suspend 0x1a2b\<close> is sent \<open>SIGTERM\<close> by a resume
  run of \<open>/usr/bin/xdg-screensaver\<close> for window \<open>0x1a2b\<close>: the candidate's link is read
  but never compared with \<open>selfExeLink\<close>.
\<close>

theorem other_executable_is_terminated:
  "allocReadlink (\<lambda>size. True) (Readlink_Ok ''/usr/bin/sleep'') True = (True, Some ''/usr/bin/sleep'')
   \<and> ''/usr/bin/sleep'' \<noteq> ''/usr/bin/xdg-screensaver''
   \<and> checkAndResumeProcess
       (\<lambda>pid. proc_with ''/usr/bin/sleep'' (cmdline_of [''sleep'', ''suspend'', ''0x1a2b'']))
       4242 (Some ''/usr/bin/xdg-screensaver'') 0x1a2b
     = (True, [Kill 4242 SIGTERM])"
  by (simp add: matcher_defs)

section \<open>Formatting and parsing a window id\<close>

lemma hex_digit_val: "d < 16 \<Longrightarrow> digit_val (hex_digit d) = d"
proof -
  assume d: "d < 16"
  have a: "(48 + d) mod 256 = 48 + d" "(87 + d) mod 256 = 87 + d"
    using d by simp_all
  show ?thesis
    using d by (auto simp add: hex_digit_def digit_val_def Let_def a)
qed

lemma to_hex_in_base: "c \<in> set (to_hex n) \<Longrightarrow> in_base 16 c"
proof (induction n rule: to_hex.induct)
  case (1 n)
  show ?case
  proof (cases "n < 16")
    case True
    with "1.prems" show ?thesis
      by (simp add: to_hex.simps [of n] in_base_def hex_digit_val)
  next
    case False
    have "n mod 16 < 16" by simp
    then have "in_base 16 (hex_digit (n mod 16))"
      by (simp only: in_base_def hex_digit_val)
    with False "1.prems" "1.IH" show ?thesis
      by (auto simp add: to_hex.simps [of n])
  qed
qed

lemma digits_value_snoc: "digits_value b (ds @ [c]) = digits_value b ds * b + digit_val c"
  by (simp add: digits_value_def)

lemma digits_value_to_hex: "digits_value 16 (to_hex n) = n"
proof (induction n rule: to_hex.induct)
  case (1 n)
  show ?case
  proof (cases "n < 16")
    case True
    then show ?thesis
      by (simp add: to_hex.simps [of n] digits_value_def hex_digit_val)
  next
    case False
    have "n mod 16 < 16" by simp
    then have "digit_val (hex_digit (n mod 16)) = n mod 16"
      by (rule hex_digit_val)
    with False "1.IH" show ?thesis
      by (simp add: to_hex.simps [of n] digits_value_snoc)
  qed
qed

lemma to_hex_not_Nil: "to_hex n \<noteq> []"
  by (simp add: to_hex.simps [of n])

lemma strtoul_0x:
  assumes "n \<le> ULONG_MAX"
  shows "strtoul (''0x'' @ to_hex n) = (of_nat n, [])"
proof -
  have t: "takeWhile (in_base 16) (to_hex n) = to_hex n"
    by (simp add: to_hex_in_base)
  have d: "dropWhile (in_base 16) (to_hex n) = []"
    by (simp add: to_hex_in_base)
  show ?thesis
    using assms
    by (simp add: strtoul_def isspace_def t d to_hex_not_Nil digits_value_to_hex)
qed

lemma strtoul_0: "strtoul ''0'' = (0, [])"
  by (simp add: strtoul_def isspace_def in_base_def digit_val_def digits_value_def ULONG_MAX_def)

lemma strtoul_format: "format_hash_lx w \<noteq> [] \<and> strtoul (format_hash_lx w) = (w, [])"
proof (cases "w = 0")
  case True
  then show ?thesis by (simp add: format_hash_lx_def strtoul_0)
next
  case False
  have "unat w < 2 ^ 64"
    using unsigned_less [of w] by simp
  then have "unat w \<le> ULONG_MAX"
    by (simp add: ULONG_MAX_def)
  then have "strtoul (''0x'' @ to_hex (unat w)) = (of_nat (unat w), [])"
    by (rule strtoul_0x)
  with False show ?thesis by (simp add: format_hash_lx_def)
qed

text \<open>
  \<^bold>\<open>C8\<close>. Whatever string \<open>s\<close> the window id was parsed from (a decimal numeral in
  particular), its \<open>%#lx\<close> rendering is a non-empty token that \<open>strtoul\<close> with base 0
  converts completely and back to the same id: the three tests the matcher makes on a
  window token all pass.
\<close>

theorem window_id_round_trip:
  "format_hash_lx (fst (strtoul s)) \<noteq> []
   \<and> strtoul (format_hash_lx (fst (strtoul s))) = (fst (strtoul s), [])"
  by (rule strtoul_format)

theorem window_id_round_trip_witness:
  "fst (strtoul ''6699'') = 6699
   \<and> format_hash_lx 6699 = ''0x1a2b''
   \<and> strtoul (format_hash_lx 6699) = (6699, [])"
proof -
  have h1: "fst (strtoul ''6699'') = 6699"
    by (simp add: strtoul_def isspace_def in_base_def digit_val_def digits_value_def ULONG_MAX_def)
  have h2: "format_hash_lx 6699 = ''0x1a2b''"
    by (simp add: format_hash_lx_def to_hex.simps hex_digit_def char_of_def bit_Suc_0_iff)
  from window_id_round_trip [of "''6699''"] h1 h2 show ?thesis
    by simp
qed

end
